theory Spec2Isabelle
  imports Main
begin

section \<open>Data model\<close>

text \<open>
  Modelled from the spec: the schema and the types of the database client are not among
  the sources. Booking is \<open>{id, userId, roomId, createdAt, updatedAt}\<close>, Room is
  \<open>{id, hotelId, name, capacity, createdAt, updatedAt}\<close>, Ticket is
  \<open>{status: RESERVED|PAID, TicketType}\<close> and TicketType is \<open>{isRemote, includesHotel}\<close>.
  Identifiers, capacities and counts are JavaScript numbers holding integers; timestamps
  are kept as integers (milliseconds). Field names carry the table's name as a prefix.
\<close>

record room =
  room_id :: int
  room_name :: string
  room_capacity :: int
  room_hotelId :: int
  room_createdAt :: int
  room_updatedAt :: int

record booking =
  booking_id :: int
  booking_userId :: int
  booking_roomId :: int
  booking_createdAt :: int
  booking_updatedAt :: int

text \<open>A booking loaded together with the room it references (\<open>include: { Room: true }\<close>).\<close>

record bookingWithRoom = booking +
  Room :: room

datatype ticketStatus = RESERVED | PAID

record ticketType =
  includesHotel :: bool
  isRemote :: bool

record ticket =
  status :: ticketStatus
  TicketType :: ticketType

text \<open>The object \<open>getBookingByUserId\<close> builds: the fields \<open>id\<close> and \<open>Room\<close> only.\<close>

record bookingResponse =
  response_id :: int
  response_Room :: room

text \<open>
  The relational store: the two tables the booking logic touches, the sequence that
  numbers new bookings, and the time at which the request runs.
\<close>

record store =
  rooms :: "room list"
  bookings :: "booking list"
  nextBookingId :: int
  clock :: int

section \<open>Errors\<close>

text \<open>
  Modelled from the spec: the errors module (\<open>@/errors\<close>) is not among the sources. A
  thrown error is an object with a \<open>name\<close>; the three kinds the service throws are
  NotFound, Unauthorized and Forbidden, and the controller tells them apart by the names
  \<open>UnauthorizedError\<close> and \<open>ForbiddenError\<close>.
\<close>

datatype error = ApplicationError (name: string)

definition notFoundError :: error where
  "notFoundError = ApplicationError ''NotFoundError''"

definition unauthorizedError :: error where
  "unauthorizedError = ApplicationError ''UnauthorizedError''"

definition forbiddenError :: error where
  "forbiddenError = ApplicationError ''ForbiddenError''"

text \<open>
  The error of the database client, thrown when it rejects a query or a write. Its name
  is none of the three above.
\<close>

definition databaseError :: error where
  "databaseError = ApplicationError ''PrismaClientKnownRequestError''"

section \<open>Collaborators of the service\<close>

text \<open>
  The booking repository and the ticket service are imported by the service but are not
  among the sources, so the service takes them as a parameter. Lookups only read the
  store; the two mutations return the new store as well, and may fail with an error of
  the database client. \<open>insertBooking\<close> may also return nothing, which the service checks.
\<close>

record deps =
  findBookingByUserId :: "store \<Rightarrow> int \<Rightarrow> bookingWithRoom option"
  findBookingByRoomId :: "store \<Rightarrow> int \<Rightarrow> bookingWithRoom list"
  findBookingByBookingId :: "store \<Rightarrow> int \<Rightarrow> booking option"
  insertBooking :: "store \<Rightarrow> int \<Rightarrow> int \<Rightarrow> (error + booking option) \<times> store"
  updateBooking :: "store \<Rightarrow> int \<Rightarrow> int \<Rightarrow> (error + booking) \<times> store"
  getTicketByUserId :: "store \<Rightarrow> int \<Rightarrow> error + ticket"

section \<open>Room repository\<close>

text \<open>
  \<open>prisma.room.findFirst({ where: { id: roomId } })\<close>: the first room row with that id,
  or nothing. The column is a 32-bit integer: for a \<open>roomId\<close> outside that range the
  database client does not run the query and throws its own error.
\<close>

definition int4 :: "int \<Rightarrow> bool" where
  "int4 n = (- 2147483648 \<le> n \<and> n \<le> 2147483647)"

definition listRoom :: "store \<Rightarrow> int \<Rightarrow> error + room option" where
  "listRoom s roomId =
     (if int4 roomId then Inr (find (\<lambda>r. room_id r = roomId) (rooms s))
      else Inl databaseError)"

section \<open>Booking service\<close>

definition getBookingByUserId :: "deps \<Rightarrow> store \<Rightarrow> int \<Rightarrow> error + bookingResponse" where
  "getBookingByUserId R s userId =
     (case findBookingByUserId R s userId of
        None \<Rightarrow> Inl notFoundError
      | Some booking \<Rightarrow>
          Inr \<lparr>response_id = booking_id booking, response_Room = Room booking\<rparr>)"

definition validateTicket :: "deps \<Rightarrow> store \<Rightarrow> int \<Rightarrow> error + ticket" where
  "validateTicket R s userId =
     (case getTicketByUserId R s userId of
        Inl e \<Rightarrow> Inl e
      | Inr ticket \<Rightarrow>
          if \<not> includesHotel (TicketType ticket) \<or> isRemote (TicketType ticket)
               \<or> status ticket = RESERVED
          then Inl unauthorizedError
          else Inr ticket)"

definition validateBookingByRoomId ::
  "deps \<Rightarrow> store \<Rightarrow> int \<Rightarrow> error + bookingWithRoom list" where
  "validateBookingByRoomId R s roomId =
     (let booking = findBookingByRoomId R s roomId;
          bookingQuantity = int (length booking)
      in if bookingQuantity = 0 then Inl notFoundError
         else let roomCapacity = room_capacity (Room (booking ! 0))
              in if roomCapacity - bookingQuantity < 1 then Inl forbiddenError
                 else Inr booking)"

definition validateBookingByUserId :: "deps \<Rightarrow> store \<Rightarrow> int \<Rightarrow> error + unit" where
  "validateBookingByUserId R s userId =
     (case findBookingByUserId R s userId of
        Some booking \<Rightarrow> Inl forbiddenError
      | None \<Rightarrow> Inr ())"

definition postBooking :: "deps \<Rightarrow> store \<Rightarrow> int \<Rightarrow> int \<Rightarrow> (error + int) \<times> store" where
  "postBooking R s userId roomId =
     (case validateTicket R s userId of
        Inl e \<Rightarrow> (Inl e, s)
      | Inr _ \<Rightarrow>
     (case validateBookingByRoomId R s roomId of
        Inl e \<Rightarrow> (Inl e, s)
      | Inr _ \<Rightarrow>
     (case validateBookingByUserId R s userId of
        Inl e \<Rightarrow> (Inl e, s)
      | Inr _ \<Rightarrow>
     (case insertBooking R s userId roomId of
        (Inl e, s') \<Rightarrow> (Inl e, s')
      | (Inr None, s') \<Rightarrow> (Inl forbiddenError, s')
      | (Inr (Some booking), s') \<Rightarrow> (Inr (booking_id booking), s')))))"

definition checkUserHasBooking :: "deps \<Rightarrow> store \<Rightarrow> int \<Rightarrow> error + bookingWithRoom" where
  "checkUserHasBooking R s userId =
     (case findBookingByUserId R s userId of
        None \<Rightarrow> Inl forbiddenError
      | Some bookingFromUser \<Rightarrow> Inr bookingFromUser)"

definition checkRoomExists :: "store \<Rightarrow> int \<Rightarrow> error + room" where
  "checkRoomExists s roomId =
     (case listRoom s roomId of
        Inl e \<Rightarrow> Inl e
      | Inr None \<Rightarrow> Inl notFoundError
      | Inr (Some room) \<Rightarrow> Inr room)"

definition checkBookingExists :: "deps \<Rightarrow> store \<Rightarrow> int \<Rightarrow> error + booking" where
  "checkBookingExists R s bookingId =
     (case findBookingByBookingId R s bookingId of
        None \<Rightarrow> Inl notFoundError
      | Some booking \<Rightarrow> Inr booking)"

definition putBooking ::
  "deps \<Rightarrow> store \<Rightarrow> int \<Rightarrow> int \<Rightarrow> int \<Rightarrow> (error + booking) \<times> store" where
  "putBooking R s userId roomId bookingId =
     (case checkUserHasBooking R s userId of
        Inl e \<Rightarrow> (Inl e, s)
      | Inr bookingFromUser \<Rightarrow>
     (case checkRoomExists s roomId of
        Inl e \<Rightarrow> (Inl e, s)
      | Inr room \<Rightarrow>
     (case checkBookingExists R s bookingId of
        Inl e \<Rightarrow> (Inl e, s)
      | Inr booking \<Rightarrow>
          if booking_id bookingFromUser \<noteq> booking_id booking then (Inl forbiddenError, s)
          else
     (case validateBookingByRoomId R s roomId of
        Inl e \<Rightarrow> (Inl e, s)
      | Inr _ \<Rightarrow> updateBooking R s bookingId roomId))))"

section \<open>Booking controller\<close>

text \<open>
  What an action sends: \<open>res.status(c).send(payload)\<close> has a payload,
  \<open>res.sendStatus(c)\<close> has none. The authenticated user id, the \<open>roomId\<close> of the request
  body and the numeric \<open>bookingId\<close> of the path are the actions' arguments.
\<close>

datatype payload = BookingPayload bookingResponse | BookingIdPayload int

record response =
  statusCode :: nat
  body :: "payload option"

definition httpStatus_OK :: nat where "httpStatus_OK = 200"
definition httpStatus_UNAUTHORIZED :: nat where "httpStatus_UNAUTHORIZED = 401"
definition httpStatus_FORBIDDEN :: nat where "httpStatus_FORBIDDEN = 403"
definition httpStatus_NOT_FOUND :: nat where "httpStatus_NOT_FOUND = 404"

definition send :: "nat \<Rightarrow> payload \<Rightarrow> response" where
  "send c p = \<lparr>statusCode = c, body = Some p\<rparr>"

definition sendStatus :: "nat \<Rightarrow> response" where
  "sendStatus c = \<lparr>statusCode = c, body = None\<rparr>"

definition getBooking :: "deps \<Rightarrow> store \<Rightarrow> int \<Rightarrow> response" where
  "getBooking R s userId =
     (case getBookingByUserId R s userId of
        Inr booking \<Rightarrow> send httpStatus_OK (BookingPayload booking)
      | Inl error \<Rightarrow> sendStatus httpStatus_NOT_FOUND)"

definition postBooking_controller :: "deps \<Rightarrow> store \<Rightarrow> int \<Rightarrow> int \<Rightarrow> response \<times> store" where
  "postBooking_controller R s userId roomId =
     (case postBooking R s userId roomId of
        (Inr bookingId, s') \<Rightarrow> (send httpStatus_OK (BookingIdPayload bookingId), s')
      | (Inl error, s') \<Rightarrow>
          (if name error = ''UnauthorizedError'' then sendStatus httpStatus_UNAUTHORIZED
           else if name error = ''ForbiddenError'' then sendStatus httpStatus_FORBIDDEN
           else sendStatus httpStatus_NOT_FOUND, s'))"

definition putBooking_controller ::
  "deps \<Rightarrow> store \<Rightarrow> int \<Rightarrow> int \<Rightarrow> int \<Rightarrow> response \<times> store" where
  "putBooking_controller R s userId roomId bookingId =
     (case putBooking R s userId roomId bookingId of
        (Inr updatedBooking, s') \<Rightarrow>
          (send httpStatus_OK (BookingIdPayload (booking_id updatedBooking)), s')
      | (Inl error, s') \<Rightarrow>
          (if name error = ''ForbiddenError'' then sendStatus httpStatus_FORBIDDEN
           else sendStatus httpStatus_NOT_FOUND, s'))"

section \<open>A booking repository over the store\<close>

text \<open>
  Modelled from the spec: the booking repository (\<open>@/repositories/booking-repository\<close>)
  is not among the sources. The spec describes it as plain lookups and mutations: find
  booking by user id (with room), find bookings by room id (with room), find booking by
  id, insert booking, update booking's room. A booking references one room, so a row is
  loaded with the room its \<open>roomId\<close> names; a row whose room is missing (the reference
  rules that out) is not returned. A write that names a missing room or booking is
  rejected by the database and leaves the store as it was.
\<close>

text \<open>The room row a \<open>roomId\<close> references, as the database resolves the reference.\<close>

definition findRoom :: "store \<Rightarrow> int \<Rightarrow> room option" where
  "findRoom s roomId = find (\<lambda>r. room_id r = roomId) (rooms s)"

definition includeRoom :: "store \<Rightarrow> booking \<Rightarrow> bookingWithRoom option" where
  "includeRoom s b =
     (case findRoom s (booking_roomId b) of
        None \<Rightarrow> None
      | Some r \<Rightarrow>
          Some \<lparr>booking_id = booking_id b, booking_userId = booking_userId b,
                booking_roomId = booking_roomId b, booking_createdAt = booking_createdAt b,
                booking_updatedAt = booking_updatedAt b, Room = r\<rparr>)"

definition findBookingByUserId_db :: "store \<Rightarrow> int \<Rightarrow> bookingWithRoom option" where
  "findBookingByUserId_db s userId =
     (case find (\<lambda>b. booking_userId b = userId) (bookings s) of
        None \<Rightarrow> None
      | Some b \<Rightarrow> includeRoom s b)"

definition findBookingByRoomId_db :: "store \<Rightarrow> int \<Rightarrow> bookingWithRoom list" where
  "findBookingByRoomId_db s roomId =
     List.map_filter (includeRoom s) (filter (\<lambda>b. booking_roomId b = roomId) (bookings s))"

definition findBookingByBookingId_db :: "store \<Rightarrow> int \<Rightarrow> booking option" where
  "findBookingByBookingId_db s bookingId = find (\<lambda>b. booking_id b = bookingId) (bookings s)"

definition insertBooking_db :: "store \<Rightarrow> int \<Rightarrow> int \<Rightarrow> (error + booking option) \<times> store" where
  "insertBooking_db s userId roomId =
     (case findRoom s roomId of
        None \<Rightarrow> (Inl databaseError, s)
      | Some _ \<Rightarrow>
          (let b = \<lparr>booking_id = nextBookingId s, booking_userId = userId,
                    booking_roomId = roomId, booking_createdAt = clock s,
                    booking_updatedAt = clock s\<rparr>
           in (Inr (Some b),
               s\<lparr>bookings := bookings s @ [b], nextBookingId := nextBookingId s + 1\<rparr>)))"

definition setRoom :: "store \<Rightarrow> int \<Rightarrow> int \<Rightarrow> booking \<Rightarrow> booking" where
  "setRoom s bookingId roomId b =
     (if booking_id b = bookingId
      then b\<lparr>booking_roomId := roomId, booking_updatedAt := clock s\<rparr>
      else b)"

definition updateBooking_db :: "store \<Rightarrow> int \<Rightarrow> int \<Rightarrow> (error + booking) \<times> store" where
  "updateBooking_db s bookingId roomId =
     (case findBookingByBookingId_db s bookingId of
        None \<Rightarrow> (Inl databaseError, s)
      | Some b \<Rightarrow>
          (case findRoom s roomId of
             None \<Rightarrow> (Inl databaseError, s)
           | Some _ \<Rightarrow>
               (Inr (setRoom s bookingId roomId b),
                s\<lparr>bookings := map (setRoom s bookingId roomId) (bookings s)\<rparr>)))"

text \<open>The collaborators over the store, for a given ticket service.\<close>

definition dbDeps :: "(store \<Rightarrow> int \<Rightarrow> error + ticket) \<Rightarrow> deps" where
  "dbDeps ticketService =
     \<lparr>findBookingByUserId = findBookingByUserId_db,
      findBookingByRoomId = findBookingByRoomId_db,
      findBookingByBookingId = findBookingByBookingId_db,
      insertBooking = insertBooking_db,
      updateBooking = updateBooking_db,
      getTicketByUserId = ticketService\<rparr>"

section \<open>Properties of a store\<close>

text \<open>
  What the schema guarantees: room ids and booking ids are primary keys, the sequence
  is ahead of every booking id, and every booking references an existing room.
\<close>

definition roomIdsUnique :: "store \<Rightarrow> bool" where
  "roomIdsUnique s = distinct (map room_id (rooms s))"

definition bookingIdsUnique :: "store \<Rightarrow> bool" where
  "bookingIdsUnique s =
     (distinct (map booking_id (bookings s))
      \<and> list_all (\<lambda>b. booking_id b < nextBookingId s) (bookings s))"

definition bookingsReferenceRooms :: "store \<Rightarrow> bool" where
  "bookingsReferenceRooms s = list_all (\<lambda>b. findRoom s (booking_roomId b) \<noteq> None) (bookings s)"

definition wellFormed :: "store \<Rightarrow> bool" where
  "wellFormed s = (roomIdsUnique s \<and> bookingIdsUnique s \<and> bookingsReferenceRooms s)"

text \<open>The two intended invariants of the data model.\<close>

definition bookingCount :: "store \<Rightarrow> int \<Rightarrow> int" where
  "bookingCount s roomId = int (length (filter (\<lambda>b. booking_roomId b = roomId) (bookings s)))"

definition capacityRespected :: "store \<Rightarrow> bool" where
  "capacityRespected s = list_all (\<lambda>r. bookingCount s (room_id r) \<le> room_capacity r) (rooms s)"

definition oneBookingPerUser :: "store \<Rightarrow> bool" where
  "oneBookingPerUser s = distinct (map booking_userId (bookings s))"

text \<open>
  A repository whose writes, when they fail or return nothing, have written nothing.
\<close>

definition failedWritesWriteNothing :: "deps \<Rightarrow> bool" where
  "failedWritesWriteNothing R =
     (\<forall>s a b s'.
        (\<forall>e. insertBooking R s a b = (Inl e, s') \<longrightarrow> s' = s)
      \<and> (insertBooking R s a b = (Inr None, s') \<longrightarrow> s' = s)
      \<and> (\<forall>e. updateBooking R s a b = (Inl e, s') \<longrightarrow> s' = s))"

section \<open>Example data\<close>

text \<open>
  The scenario of the integration tests: one room, one booking of another user in it,
  and a caller, user 7, whose ticket the ticket service answers with.
\<close>

definition room1 :: room where
  "room1 = \<lparr>room_id = 1, room_name = ''101'', room_capacity = 3, room_hotelId = 1,
            room_createdAt = 0, room_updatedAt = 0\<rparr>"

definition room2 :: room where
  "room2 = \<lparr>room_id = 2, room_name = ''102'', room_capacity = 1, room_hotelId = 1,
            room_createdAt = 0, room_updatedAt = 0\<rparr>"

definition booking1 :: booking where
  "booking1 = \<lparr>booking_id = 1, booking_userId = 8, booking_roomId = 1,
               booking_createdAt = 5, booking_updatedAt = 5\<rparr>"

definition booking2 :: booking where
  "booking2 = \<lparr>booking_id = 2, booking_userId = 7, booking_roomId = 2,
               booking_createdAt = 6, booking_updatedAt = 6\<rparr>"

definition store1 :: store where
  "store1 = \<lparr>rooms = [room1, room2], bookings = [booking1], nextBookingId = 2, clock = 10\<rparr>"

definition store2 :: store where
  "store2 = \<lparr>rooms = [room1, room2], bookings = [booking1, booking2], nextBookingId = 3,
             clock = 10\<rparr>"

definition ticketOf :: "ticketStatus \<Rightarrow> bool \<Rightarrow> bool \<Rightarrow> ticket" where
  "ticketOf st hotel remote =
     \<lparr>status = st, TicketType = \<lparr>includesHotel = hotel, isRemote = remote\<rparr>\<rparr>"

definition answering :: "ticket \<Rightarrow> store \<Rightarrow> int \<Rightarrow> error + ticket" where
  "answering t s userId = Inr t"

definition paidHotelTicket :: "store \<Rightarrow> int \<Rightarrow> error + ticket" where
  "paidHotelTicket = answering (ticketOf PAID True False)"

definition reservedTicket :: "store \<Rightarrow> int \<Rightarrow> error + ticket" where
  "reservedTicket = answering (ticketOf RESERVED True False)"

text \<open>The store after user 7 has posted to room 1 in \<open>store1\<close>.\<close>

definition posted :: booking where
  "posted = \<lparr>booking_id = 2, booking_userId = 7, booking_roomId = 1,
             booking_createdAt = 10, booking_updatedAt = 10\<rparr>"

definition store1_posted :: store where
  "store1_posted = store1\<lparr>bookings := [booking1, posted], nextBookingId := 3\<rparr>"

text \<open>The store after user 7 has moved booking 2 to room 1 in \<open>store2\<close>.\<close>

definition store2_moved :: store where
  "store2_moved =
     store2\<lparr>bookings := [booking1, booking2\<lparr>booking_roomId := 1, booking_updatedAt := 10\<rparr>]\<rparr>"

text \<open>\<open>store2\<close> with booking 2 held by another user since another time.\<close>

definition store2_other :: store where
  "store2_other =
     store2\<lparr>bookings := [booking1, booking2\<lparr>booking_userId := 11, booking_createdAt := 7\<rparr>]\<rparr>"

text \<open>\<open>store2\<close> with a third room, which no booking references.\<close>

definition room3 :: room where
  "room3 = \<lparr>room_id = 3, room_name = ''103'', room_capacity = 2, room_hotelId = 1,
            room_createdAt = 0, room_updatedAt = 0\<rparr>"

definition store3 :: store where
  "store3 = store2\<lparr>rooms := [room1, room2, room3]\<rparr>"

text \<open>A repository whose insert returns nothing and writes nothing.\<close>

definition insertNothing :: "store \<Rightarrow> int \<Rightarrow> int \<Rightarrow> (error + booking option) \<times> store" where
  "insertNothing s userId roomId = (Inr None, s)"

definition emptyHandedDeps :: deps where
  "emptyHandedDeps = (dbDeps paidHotelTicket)\<lparr>insertBooking := insertNothing\<rparr>"

text \<open>A repository whose insert writes the row and returns nothing.\<close>

definition insertSilently :: "store \<Rightarrow> int \<Rightarrow> int \<Rightarrow> (error + booking option) \<times> store" where
  "insertSilently s userId roomId = (Inr None, snd (insertBooking_db s userId roomId))"

definition leakyDeps :: deps where
  "leakyDeps = (dbDeps paidHotelTicket)\<lparr>insertBooking := insertSilently\<rparr>"

section \<open>The service, whatever the repository\<close>

lemmas error_defs = notFoundError_def unauthorizedError_def forbiddenError_def

lemmas httpStatus_defs =
  httpStatus_OK_def httpStatus_UNAUTHORIZED_def httpStatus_FORBIDDEN_def
  httpStatus_NOT_FOUND_def

lemma findRoom_None_iff: "findRoom s roomId = None \<longleftrightarrow> roomId \<notin> room_id ` set (rooms s)"
  by (auto simp: findRoom_def find_None_iff)

lemma findRoom_Some: "findRoom s roomId = Some r \<Longrightarrow> r \<in> set (rooms s) \<and> room_id r = roomId"
  by (auto simp: findRoom_def find_Some_iff)

lemma listRoom_findRoom: "int4 roomId \<Longrightarrow> listRoom s roomId = Inr (findRoom s roomId)"
  by (simp add: listRoom_def findRoom_def)

lemma validateBookingByRoomId_Nil:
  "findBookingByRoomId R s roomId = [] \<Longrightarrow> validateBookingByRoomId R s roomId = Inl notFoundError"
  by (simp add: validateBookingByRoomId_def)

text \<open>
  C3. \<open>validateBookingByRoomId\<close> throws NotFound exactly when the repository returns no
  booking for the room; otherwise it throws Forbidden exactly when the capacity of the
  room embedded in the first returned booking, minus the number of returned bookings, is
  below 1; and it returns the list exactly when neither holds.
\<close>

theorem validateBookingByRoomId_outcome:
  "(let found = findBookingByRoomId R s roomId;
        remaining = room_capacity (Room (hd found)) - int (length found)
    in (validateBookingByRoomId R s roomId = Inl notFoundError \<longleftrightarrow> found = [])
     \<and> (validateBookingByRoomId R s roomId = Inl forbiddenError \<longleftrightarrow> found \<noteq> [] \<and> remaining < 1)
     \<and> (validateBookingByRoomId R s roomId = Inr found \<longleftrightarrow> found \<noteq> [] \<and> \<not> remaining < 1))"
  by (cases "findBookingByRoomId R s roomId")
     (simp_all add: validateBookingByRoomId_def Let_def error_defs)

text \<open>
  C4. When the ticket service answers with a ticket, \<open>validateTicket\<close> throws Unauthorized
  if and only if the ticket is not (PAID, with hotel, not remote), and returns the ticket
  otherwise. So a post with a RESERVED ticket, a remote ticket type or a ticket type
  without hotel throws Unauthorized, leaves the store alone, and the controller answers
  401.
\<close>

theorem validateTicket_eligibility:
  assumes "getTicketByUserId R s userId = Inr t"
  shows "(validateTicket R s userId = Inl unauthorizedError \<longleftrightarrow>
            \<not> (status t = PAID \<and> includesHotel (TicketType t) \<and> \<not> isRemote (TicketType t)))
       \<and> (validateTicket R s userId = Inr t \<longleftrightarrow>
            status t = PAID \<and> includesHotel (TicketType t) \<and> \<not> isRemote (TicketType t))
       \<and> (status t = RESERVED \<or> isRemote (TicketType t) \<or> \<not> includesHotel (TicketType t) \<longrightarrow>
            postBooking R s userId roomId = (Inl unauthorizedError, s)
          \<and> postBooking_controller R s userId roomId = (sendStatus 401, s))"
  using assms
  by (cases "status t")
     (auto simp: validateTicket_def postBooking_def postBooking_controller_def error_defs
        httpStatus_UNAUTHORIZED_def)

text \<open>
  C9. \<open>getBookingByUserId\<close> throws NotFound exactly when the repository finds no booking
  of the user; otherwise it returns the object made of the booking's \<open>id\<close> and \<open>Room\<close>.
  Nothing else of the booking reaches the response: two bookings with the same id and
  room give the same response, whatever their user, room reference and timestamps.
\<close>

theorem getBookingByUserId_outcome:
  "(getBookingByUserId R s userId = Inl notFoundError \<longleftrightarrow> findBookingByUserId R s userId = None)
 \<and> (\<forall>b. findBookingByUserId R s userId = Some b \<longrightarrow>
        getBookingByUserId R s userId
          = Inr \<lparr>response_id = booking_id b, response_Room = Room b\<rparr>)
 \<and> (\<forall>b R' s' userId' b'. findBookingByUserId R s userId = Some b
        \<and> findBookingByUserId R' s' userId' = Some b'
        \<and> booking_id b = booking_id b' \<and> Room b = Room b' \<longrightarrow>
        getBookingByUserId R' s' userId' = getBookingByUserId R s userId)"
  by (auto simp: getBookingByUserId_def split: option.splits)

text \<open>
  C1. \<open>postBooking\<close> decides in this order: the ticket (an error of the ticket service,
  or Unauthorized for an ineligible ticket), then the room (NotFound when no booking
  references it, Forbidden when it is full), then the user (Forbidden when a booking
  exists), and only then inserts; the first failing guard gives the error and the store
  is untouched. After the insert, a result of nothing throws Forbidden and a booking
  gives its id.
\<close>

theorem postBooking_guard_order:
  "postBooking R s userId roomId =
     (case getTicketByUserId R s userId of
        Inl e \<Rightarrow> (Inl e, s)
      | Inr t \<Rightarrow>
          if \<not> (status t = PAID \<and> includesHotel (TicketType t) \<and> \<not> isRemote (TicketType t))
          then (Inl unauthorizedError, s)
          else if findBookingByRoomId R s roomId = [] then (Inl notFoundError, s)
          else if room_capacity (Room (hd (findBookingByRoomId R s roomId)))
                    - int (length (findBookingByRoomId R s roomId)) < 1
          then (Inl forbiddenError, s)
          else if findBookingByUserId R s userId \<noteq> None then (Inl forbiddenError, s)
          else (case insertBooking R s userId roomId of
                  (Inl e, s') \<Rightarrow> (Inl e, s')
                | (Inr None, s') \<Rightarrow> (Inl forbiddenError, s')
                | (Inr (Some b), s') \<Rightarrow> (Inr (booking_id b), s')))"
proof (cases "getTicketByUserId R s userId")
  case (Inl e)
  then show ?thesis by (simp add: postBooking_def validateTicket_def)
next
  case (Inr t)
  show ?thesis
  proof (cases "findBookingByRoomId R s roomId")
    case Nil
    with Inr show ?thesis
      by (cases "status t")
         (simp_all add: postBooking_def validateTicket_def validateBookingByRoomId_def)
  next
    case (Cons b bs)
    with Inr show ?thesis
      by (cases "status t"; cases "findBookingByUserId R s userId")
         (simp_all add: postBooking_def validateTicket_def validateBookingByRoomId_def
            validateBookingByUserId_def Let_def)
  qed
qed

text \<open>
  C2 (corrected). \<open>putBooking\<close> checks in this order: Forbidden when the user has no
  booking; then the room lookup, which throws the database client's error when \<open>roomId\<close>
  is outside the 32-bit range and otherwise gives NotFound when no room has the id
  \<open>roomId\<close>; then NotFound when no booking has the id \<open>bookingId\<close>; then Forbidden when
  the user's booking and that booking differ in id; then the capacity validation of the
  room (NotFound, Forbidden). Every failure leaves the store untouched, and only when all
  pass is the repository's update called, with \<open>bookingId\<close> and \<open>roomId\<close>.
\<close>

theorem putBooking_check_order:
  "putBooking R s userId roomId bookingId =
     (case findBookingByUserId R s userId of
        None \<Rightarrow> (Inl forbiddenError, s)
      | Some bookingFromUser \<Rightarrow>
          if \<not> int4 roomId then (Inl databaseError, s)
          else if roomId \<notin> room_id ` set (rooms s) then (Inl notFoundError, s)
          else (case findBookingByBookingId R s bookingId of
                  None \<Rightarrow> (Inl notFoundError, s)
                | Some booking \<Rightarrow>
                    if booking_id bookingFromUser \<noteq> booking_id booking
                    then (Inl forbiddenError, s)
                    else if findBookingByRoomId R s roomId = [] then (Inl notFoundError, s)
                    else if room_capacity (Room (hd (findBookingByRoomId R s roomId)))
                              - int (length (findBookingByRoomId R s roomId)) < 1
                    then (Inl forbiddenError, s)
                    else updateBooking R s bookingId roomId))"
proof (cases "int4 roomId")
  case False
  then show ?thesis
    by (simp add: putBooking_def checkUserHasBooking_def checkRoomExists_def listRoom_def
          split: option.splits)
next
  case True
  show ?thesis
  proof (cases "findRoom s roomId")
    case None
    then have "roomId \<notin> room_id ` set (rooms s)" by (simp add: findRoom_None_iff)
    with None True show ?thesis
      by (simp add: putBooking_def checkUserHasBooking_def checkRoomExists_def
            listRoom_findRoom split: option.splits)
  next
    case (Some r)
    then have "\<not> roomId \<notin> room_id ` set (rooms s)"
      using findRoom_None_iff [of s roomId] by simp
    with Some True show ?thesis
      by (cases "findBookingByRoomId R s roomId")
         (simp_all add: putBooking_def checkUserHasBooking_def checkRoomExists_def
            listRoom_findRoom checkBookingExists_def validateBookingByRoomId_def Let_def
            split: option.splits)
  qed
qed

text \<open>
  C7. The controller's status codes. POST: 401 exactly when the service throws an error
  named \<open>UnauthorizedError\<close>, 403 exactly when it throws one named \<open>ForbiddenError\<close>, 404
  for every other error, 200 with the booking id on success. GET: 404 for every error.
  PUT: 403 exactly on \<open>ForbiddenError\<close>, 404 for every other error, and never 401.
\<close>

theorem controller_error_mapping:
  "(statusCode (fst (postBooking_controller R s userId roomId)) = 401 \<longleftrightarrow>
      (\<exists>e. fst (postBooking R s userId roomId) = Inl e \<and> name e = ''UnauthorizedError''))
 \<and> (statusCode (fst (postBooking_controller R s userId roomId)) = 403 \<longleftrightarrow>
      (\<exists>e. fst (postBooking R s userId roomId) = Inl e \<and> name e = ''ForbiddenError''))
 \<and> (\<forall>e. fst (postBooking R s userId roomId) = Inl e \<and> name e \<noteq> ''UnauthorizedError''
          \<and> name e \<noteq> ''ForbiddenError'' \<longrightarrow>
        fst (postBooking_controller R s userId roomId) = sendStatus 404)
 \<and> (\<forall>i. fst (postBooking R s userId roomId) = Inr i \<longrightarrow>
        fst (postBooking_controller R s userId roomId)
          = \<lparr>statusCode = 200, body = Some (BookingIdPayload i)\<rparr>)
 \<and> (\<forall>e. getBookingByUserId R s userId = Inl e \<longrightarrow> getBooking R s userId = sendStatus 404)
 \<and> (statusCode (fst (putBooking_controller R s userId roomId bookingId)) = 403 \<longleftrightarrow>
      (\<exists>e. fst (putBooking R s userId roomId bookingId) = Inl e \<and> name e = ''ForbiddenError''))
 \<and> (\<forall>e. fst (putBooking R s userId roomId bookingId) = Inl e \<and> name e \<noteq> ''ForbiddenError'' \<longrightarrow>
        fst (putBooking_controller R s userId roomId bookingId) = sendStatus 404)
 \<and> statusCode (fst (putBooking_controller R s userId roomId bookingId)) \<noteq> 401"
proof -
  obtain x s1 where post: "postBooking R s userId roomId = (x, s1)"
    by (cases "postBooking R s userId roomId")
  obtain y s2 where put: "putBooking R s userId roomId bookingId = (y, s2)"
    by (cases "putBooking R s userId roomId bookingId")
  have p1: "statusCode (fst (postBooking_controller R s userId roomId)) = 401 \<longleftrightarrow>
      (\<exists>e. fst (postBooking R s userId roomId) = Inl e \<and> name e = ''UnauthorizedError'')"
    using post
    by (cases x)
       (simp_all add: postBooking_controller_def sendStatus_def send_def httpStatus_defs)
  have p2: "statusCode (fst (postBooking_controller R s userId roomId)) = 403 \<longleftrightarrow>
      (\<exists>e. fst (postBooking R s userId roomId) = Inl e \<and> name e = ''ForbiddenError'')"
    using post
    by (cases x)
       (auto simp: postBooking_controller_def sendStatus_def send_def httpStatus_defs)
  have p3: "\<forall>e. fst (postBooking R s userId roomId) = Inl e \<and> name e \<noteq> ''UnauthorizedError''
          \<and> name e \<noteq> ''ForbiddenError'' \<longrightarrow>
        fst (postBooking_controller R s userId roomId) = sendStatus 404"
    using post by (simp add: postBooking_controller_def httpStatus_NOT_FOUND_def)
  have p4: "\<forall>i. fst (postBooking R s userId roomId) = Inr i \<longrightarrow>
        fst (postBooking_controller R s userId roomId)
          = \<lparr>statusCode = 200, body = Some (BookingIdPayload i)\<rparr>"
    using post by (simp add: postBooking_controller_def send_def httpStatus_OK_def)
  have g: "\<forall>e. getBookingByUserId R s userId = Inl e \<longrightarrow> getBooking R s userId = sendStatus 404"
    by (simp add: getBooking_def httpStatus_NOT_FOUND_def)
  have u1: "statusCode (fst (putBooking_controller R s userId roomId bookingId)) = 403 \<longleftrightarrow>
      (\<exists>e. fst (putBooking R s userId roomId bookingId) = Inl e \<and> name e = ''ForbiddenError'')"
    using put
    by (cases y)
       (simp_all add: putBooking_controller_def sendStatus_def send_def httpStatus_defs)
  have u2: "\<forall>e. fst (putBooking R s userId roomId bookingId) = Inl e
          \<and> name e \<noteq> ''ForbiddenError'' \<longrightarrow>
        fst (putBooking_controller R s userId roomId bookingId) = sendStatus 404"
    using put by (simp add: putBooking_controller_def httpStatus_NOT_FOUND_def)
  have u3: "statusCode (fst (putBooking_controller R s userId roomId bookingId)) \<noteq> 401"
    using put
    by (cases y)
       (simp_all add: putBooking_controller_def sendStatus_def send_def httpStatus_defs)
  from p1 p2 p3 p4 g u1 u2 u3 show ?thesis by blast
qed

text \<open>
  C5 (corrected). When the repository returns no booking for room \<open>roomId\<close>: a post by a
  caller with an eligible ticket throws NotFound, with or without a booking of the
  caller; a put to the room, when it exists, by a caller who has a booking throws NotFound
  if \<open>bookingId\<close> names the caller's booking or no booking, and Forbidden if it names
  another booking; and neither a post nor a put to that room can succeed, so no room gets
  its first booking through the service.
\<close>

theorem empty_room_is_not_found:
  assumes "findBookingByRoomId R s roomId = []"
  shows "(\<forall>t. getTicketByUserId R s userId = Inr t \<and> status t = PAID
              \<and> includesHotel (TicketType t) \<and> \<not> isRemote (TicketType t) \<longrightarrow>
            postBooking R s userId roomId = (Inl notFoundError, s))
       \<and> (\<forall>bu r. findBookingByUserId R s userId = Some bu
              \<and> listRoom s roomId = Inr (Some r) \<longrightarrow>
            putBooking R s userId roomId bookingId =
              (case findBookingByBookingId R s bookingId of
                 None \<Rightarrow> (Inl notFoundError, s)
               | Some bk \<Rightarrow>
                   if booking_id bk = booking_id bu then (Inl notFoundError, s)
                   else (Inl forbiddenError, s)))
       \<and> (\<forall>i s'. postBooking R s userId roomId \<noteq> (Inr i, s'))
       \<and> (\<forall>b s'. putBooking R s userId roomId bookingId \<noteq> (Inr b, s'))"
proof -
  note v = validateBookingByRoomId_Nil [OF assms]
  have a: "\<forall>t. getTicketByUserId R s userId = Inr t \<and> status t = PAID
              \<and> includesHotel (TicketType t) \<and> \<not> isRemote (TicketType t) \<longrightarrow>
            postBooking R s userId roomId = (Inl notFoundError, s)"
    by (simp add: postBooking_def validateTicket_def v)
  have b: "\<forall>bu r. findBookingByUserId R s userId = Some bu
              \<and> listRoom s roomId = Inr (Some r) \<longrightarrow>
            putBooking R s userId roomId bookingId =
              (case findBookingByBookingId R s bookingId of
                 None \<Rightarrow> (Inl notFoundError, s)
               | Some bk \<Rightarrow>
                   if booking_id bk = booking_id bu then (Inl notFoundError, s)
                   else (Inl forbiddenError, s))"
    by (auto simp: putBooking_def checkUserHasBooking_def checkRoomExists_def
          checkBookingExists_def v split: option.splits)
  have c: "\<forall>i s'. postBooking R s userId roomId \<noteq> (Inr i, s')"
    by (simp add: postBooking_def v split: sum.splits)
  have d: "\<forall>b s'. putBooking R s userId roomId bookingId \<noteq> (Inr b, s')"
    by (simp add: putBooking_def v split: sum.splits)
  from a b c d show ?thesis by blast
qed

subsection \<open>Where the store can change\<close>



lemma postBooking_error_store:
  assumes "failedWritesWriteNothing R" and "postBooking R s userId roomId = (Inl e, s')"
  shows "s' = s"
proof -
  from assms(1) have
    i1: "\<And>e s'. insertBooking R s userId roomId = (Inl e, s') \<Longrightarrow> s' = s" and
    i2: "\<And>s'. insertBooking R s userId roomId = (Inr None, s') \<Longrightarrow> s' = s"
    unfolding failedWritesWriteNothing_def by blast+
  from assms(2) show ?thesis
    by (auto simp: postBooking_def split: sum.splits prod.splits option.splits
         dest: i1 i2)
qed

lemma putBooking_error_store:
  assumes "failedWritesWriteNothing R"
    and "putBooking R s userId roomId bookingId = (Inl e, s')"
  shows "s' = s"
proof -
  from assms(1) have
    u: "\<And>e s'. updateBooking R s bookingId roomId = (Inl e, s') \<Longrightarrow> s' = s"
    unfolding failedWritesWriteNothing_def by blast
  from assms(2) show ?thesis
    by (auto simp: putBooking_def split: sum.splits if_splits dest: u)
qed


section \<open>The service over the store\<close>

text \<open>
  From here on the repository is the one over the store, \<open>dbDeps\<close>, with any ticket
  service.
\<close>

lemma find_distinct_key:
  "distinct (map f xs) \<Longrightarrow> x \<in> set xs \<Longrightarrow> find (\<lambda>y. f y = f x) xs = Some x"
  by (induction xs) auto

lemma findRoom_unique:
  "roomIdsUnique s \<Longrightarrow> r \<in> set (rooms s) \<Longrightarrow> findRoom s (room_id r) = Some r"
  by (simp add: roomIdsUnique_def findRoom_def find_distinct_key)

lemma findRoom_bookings [simp]:
  "findRoom (s\<lparr>bookings := bs\<rparr>) = findRoom s"
  "findRoom (s\<lparr>nextBookingId := n\<rparr>) = findRoom s"
  by (simp_all add: findRoom_def fun_eq_iff)

lemma includeRoom_bookings [simp]:
  "includeRoom (s\<lparr>bookings := bs\<rparr>) = includeRoom s"
  "includeRoom (s\<lparr>nextBookingId := n\<rparr>) = includeRoom s"
  by (simp_all add: includeRoom_def fun_eq_iff)

lemma includeRoom_Some:
  "includeRoom s b = Some w \<Longrightarrow>
     booking_id w = booking_id b \<and> booking_userId w = booking_userId b
     \<and> booking_roomId w = booking_roomId b \<and> findRoom s (booking_roomId b) = Some (Room w)"
  by (auto simp: includeRoom_def split: option.splits)

lemma includeRoom_None_iff: "includeRoom s b = None \<longleftrightarrow> findRoom s (booking_roomId b) = None"
  by (simp add: includeRoom_def split: option.splits)

lemma map_filter_all_Some:
  "list_all (\<lambda>x. f x \<noteq> None) xs \<Longrightarrow> length (List.map_filter f xs) = length xs"
  by (induction xs) (auto split: option.splits)

lemma map_filter_hd:
  "List.map_filter f xs \<noteq> [] \<Longrightarrow> \<exists>x \<in> set xs. f x = Some (hd (List.map_filter f xs))"
  by (induction xs) (auto split: option.splits)

lemma findBookingByRoomId_db_length:
  assumes "bookingsReferenceRooms s"
  shows "int (length (findBookingByRoomId_db s roomId)) = bookingCount s roomId"
proof -
  from assms have "list_all (\<lambda>b. includeRoom s b \<noteq> None) (bookings s)"
    by (simp add: bookingsReferenceRooms_def includeRoom_None_iff)
  then have "list_all (\<lambda>b. includeRoom s b \<noteq> None)
               (filter (\<lambda>b. booking_roomId b = roomId) (bookings s))"
    by (simp add: list_all_iff)
  then show ?thesis
    by (simp add: findBookingByRoomId_db_def bookingCount_def map_filter_all_Some)
qed

lemma findBookingByRoomId_db_hd:
  assumes "findBookingByRoomId_db s roomId \<noteq> []"
  shows "findRoom s roomId = Some (Room (hd (findBookingByRoomId_db s roomId)))"
proof -
  from map_filter_hd [OF assms [unfolded findBookingByRoomId_db_def]]
  obtain b where "b \<in> set (filter (\<lambda>b. booking_roomId b = roomId) (bookings s))"
    and "includeRoom s b = Some (hd (findBookingByRoomId_db s roomId))"
    by (auto simp: findBookingByRoomId_db_def)
  then show ?thesis by (auto dest: includeRoom_Some)
qed

text \<open>What a passed capacity check says about the store.\<close>

lemma validateBookingByRoomId_db_Inr:
  assumes "validateBookingByRoomId (dbDeps tk) s roomId = Inr bs"
  shows "\<exists>r. findRoom s roomId = Some r
           \<and> (bookingsReferenceRooms s \<longrightarrow> bookingCount s roomId + 1 \<le> room_capacity r)"
proof -
  let ?found = "findBookingByRoomId_db s roomId"
  from assms have ne: "?found \<noteq> []"
    and cap: "\<not> room_capacity (Room (hd ?found)) - int (length ?found) < 1"
    by (auto simp: validateBookingByRoomId_def dbDeps_def Let_def hd_conv_nth
          split: if_splits)
  from findBookingByRoomId_db_hd [OF ne] cap show ?thesis
    by (auto simp: findBookingByRoomId_db_length)
qed

lemma findBookingByUserId_db_None:
  assumes "bookingsReferenceRooms s" and "findBookingByUserId_db s userId = None"
  shows "userId \<notin> booking_userId ` set (bookings s)"
proof
  assume "userId \<in> booking_userId ` set (bookings s)"
  then obtain b where f: "find (\<lambda>b. booking_userId b = userId) (bookings s) = Some b"
    by (cases "find (\<lambda>b. booking_userId b = userId) (bookings s)")
       (auto simp: find_None_iff)
  then have "b \<in> set (bookings s)" by (auto simp: find_Some_iff)
  with assms(1) have "includeRoom s b \<noteq> None"
    by (simp add: bookingsReferenceRooms_def list_all_iff includeRoom_None_iff)
  with f assms(2) show False by (simp add: findBookingByUserId_db_def)
qed

text \<open>A successful post, spelled out on the store.\<close>

lemma postBooking_db_success:
  assumes "postBooking (dbDeps tk) s userId roomId = (Inr i, s')"
  shows "i = nextBookingId s
       \<and> s' = s\<lparr>bookings := bookings s @
                   [\<lparr>booking_id = nextBookingId s, booking_userId = userId,
                     booking_roomId = roomId, booking_createdAt = clock s,
                     booking_updatedAt = clock s\<rparr>],
                 nextBookingId := nextBookingId s + 1\<rparr>
       \<and> findBookingByUserId_db s userId = None
       \<and> (\<exists>bs. validateBookingByRoomId (dbDeps tk) s roomId = Inr bs)"
  using assms
  by (auto simp: postBooking_def validateBookingByUserId_def insertBooking_db_def Let_def
        dbDeps_def split: sum.splits option.splits)

text \<open>The insert over the store never returns nothing.\<close>

lemma insertBooking_db_not_nothing: "fst (insertBooking_db s userId roomId) \<noteq> Inr None"
  by (simp add: insertBooking_db_def Let_def split: option.splits)

lemma find_append_None:
  "find P xs = None \<Longrightarrow> find P (xs @ ys) = find P ys"
  by (induction xs) (auto split: if_splits)

lemma failedWritesWriteNothing_dbDeps: "failedWritesWriteNothing (dbDeps tk)"
  by (auto simp: failedWritesWriteNothing_def dbDeps_def insertBooking_db_def
        updateBooking_db_def Let_def split: option.splits)

text \<open>
  C6. Round trip, in a store whose bookings all reference existing rooms: when
  \<open>postBooking\<close> succeeds with a booking id, \<open>getBookingByUserId\<close> for the same user on the
  resulting store succeeds, and its response carries that id and the room whose id is
  \<open>roomId\<close>; the controller's GET answers 200 with this response.
\<close>

theorem post_then_get:
  assumes "bookingsReferenceRooms s"
    and "postBooking (dbDeps tk) s userId roomId = (Inr i, s')"
  shows "\<exists>r. findRoom s' roomId = Some r \<and> room_id r = roomId
           \<and> getBookingByUserId (dbDeps tk) s' userId
               = Inr \<lparr>response_id = i, response_Room = r\<rparr>
           \<and> getBooking (dbDeps tk) s' userId
               = send 200 (BookingPayload \<lparr>response_id = i, response_Room = r\<rparr>)"
proof -
  let ?b = "\<lparr>booking_id = nextBookingId s, booking_userId = userId,
             booking_roomId = roomId, booking_createdAt = clock s,
             booking_updatedAt = clock s\<rparr>"
  from postBooking_db_success [OF assms(2)] obtain bs where
    i: "i = nextBookingId s" and
    s': "s' = s\<lparr>bookings := bookings s @ [?b], nextBookingId := nextBookingId s + 1\<rparr>" and
    none: "findBookingByUserId_db s userId = None" and
    v: "validateBookingByRoomId (dbDeps tk) s roomId = Inr bs"
    by blast
  from validateBookingByRoomId_db_Inr [OF v] obtain r where r: "findRoom s roomId = Some r"
    by blast
  from findBookingByUserId_db_None [OF assms(1) none]
  have "find (\<lambda>b. booking_userId b = userId) (bookings s) = None"
    by (auto simp: find_None_iff)
  then have f: "find (\<lambda>b. booking_userId b = userId) (bookings s') = Some ?b"
    by (simp add: s' find_append_None)
  have g: "getBookingByUserId (dbDeps tk) s' userId = Inr \<lparr>response_id = i, response_Room = r\<rparr>"
    using f r
    by (simp add: getBookingByUserId_def dbDeps_def findBookingByUserId_db_def
          includeRoom_def i) (simp add: s')
  have "findRoom s' roomId = Some r" using r by (simp add: s')
  moreover have "room_id r = roomId" using r by (simp add: findRoom_Some)
  moreover have "getBooking (dbDeps tk) s' userId
      = send 200 (BookingPayload \<lparr>response_id = i, response_Room = r\<rparr>)"
    by (simp add: getBooking_def g httpStatus_OK_def)
  ultimately show ?thesis using g by blast
qed

subsection \<open>The invariants under insert\<close>

lemma bookingCount_append:
  "bookingCount (s\<lparr>bookings := bookings s @ [b], nextBookingId := n\<rparr>) x
     = bookingCount s x + (if booking_roomId b = x then 1 else 0)"
  by (simp add: bookingCount_def)

lemma insert_preserves:
  assumes wf: "wellFormed s" and cap: "capacityRespected s" and one: "oneBookingPerUser s"
    and room: "findRoom s roomId = Some r"
    and free: "bookingCount s roomId + 1 \<le> room_capacity r"
    and user: "userId \<notin> booking_userId ` set (bookings s)"
    and s': "s' = s\<lparr>bookings := bookings s @
                   [\<lparr>booking_id = nextBookingId s, booking_userId = userId,
                     booking_roomId = roomId, booking_createdAt = c,
                     booking_updatedAt = c\<rparr>],
                 nextBookingId := nextBookingId s + 1\<rparr>"
  shows "wellFormed s' \<and> capacityRespected s' \<and> oneBookingPerUser s'"
proof -
  from wf have ru: "roomIdsUnique s" and bu: "bookingIdsUnique s"
    and br: "bookingsReferenceRooms s"
    by (simp_all add: wellFormed_def)
  have 1: "roomIdsUnique s'" using ru by (simp add: roomIdsUnique_def s')
  have 2: "bookingIdsUnique s'"
    using bu by (fastforce simp: bookingIdsUnique_def s' list_all_iff)
  have 3: "bookingsReferenceRooms s'"
    using br room by (simp add: bookingsReferenceRooms_def s')
  have 4: "capacityRespected s'"
    unfolding capacityRespected_def list_all_iff
  proof
    fix x assume x: "x \<in> set (rooms s')"
    then have xs: "x \<in> set (rooms s)" by (simp add: s')
    with cap have old: "bookingCount s (room_id x) \<le> room_capacity x"
      by (simp add: capacityRespected_def list_all_iff)
    show "bookingCount s' (room_id x) \<le> room_capacity x"
    proof (cases "room_id x = roomId")
      case True
      with findRoom_unique [OF ru xs] room have "x = r" by simp
      with free True show ?thesis by (simp add: s' bookingCount_append)
    next
      case False
      with old show ?thesis by (simp add: s' bookingCount_append)
    qed
  qed
  have 5: "oneBookingPerUser s'"
    using one user by (simp add: oneBookingPerUser_def s')
  from 1 2 3 4 5 show ?thesis by (simp add: wellFormed_def)
qed

lemma postBooking_preserves:
  assumes wf: "wellFormed s" and cap: "capacityRespected s" and one: "oneBookingPerUser s"
  shows "wellFormed (snd (postBooking (dbDeps tk) s userId roomId))
       \<and> capacityRespected (snd (postBooking (dbDeps tk) s userId roomId))
       \<and> oneBookingPerUser (snd (postBooking (dbDeps tk) s userId roomId))"
proof (cases "postBooking (dbDeps tk) s userId roomId")
  case (Pair x s')
  show ?thesis
  proof (cases x)
    case (Inl e)
    with Pair postBooking_error_store [OF failedWritesWriteNothing_dbDeps] have "s' = s"
      by blast
    with Pair assms show ?thesis by simp
  next
    case (Inr i)
    from wf have br: "bookingsReferenceRooms s" by (simp add: wellFormed_def)
    from Pair Inr have ok: "postBooking (dbDeps tk) s userId roomId = (Inr i, s')" by simp
    from postBooking_db_success [OF ok] obtain bs where
      s': "s' = s\<lparr>bookings := bookings s @
                   [\<lparr>booking_id = nextBookingId s, booking_userId = userId,
                     booking_roomId = roomId, booking_createdAt = clock s,
                     booking_updatedAt = clock s\<rparr>],
                 nextBookingId := nextBookingId s + 1\<rparr>" and
      none: "findBookingByUserId_db s userId = None" and
      v: "validateBookingByRoomId (dbDeps tk) s roomId = Inr bs"
      by blast
    from validateBookingByRoomId_db_Inr [OF v] br obtain r where
      "findRoom s roomId = Some r" "bookingCount s roomId + 1 \<le> room_capacity r"
      by blast
    from insert_preserves [OF wf cap one this findBookingByUserId_db_None [OF br none] s']
    show ?thesis using Pair by simp
  qed
qed

subsection \<open>The invariants under update\<close>

lemma setRoom_keys [simp]:
  "booking_id (setRoom s bookingId roomId b) = booking_id b"
  "booking_userId (setRoom s bookingId roomId b) = booking_userId b"
  by (simp_all add: setRoom_def)

lemma setRoom_roomId:
  "booking_roomId (setRoom s bookingId roomId b)
     = (if booking_id b = bookingId then roomId else booking_roomId b)"
  by (simp add: setRoom_def)

lemma length_filter_disj:
  "length (filter (\<lambda>x. P x \<or> Q x) xs) \<le> length (filter P xs) + length (filter Q xs)"
  by (induction xs) auto

lemma length_filter_key:
  "distinct (map f xs) \<Longrightarrow> length (filter (\<lambda>x. f x = k) xs) \<le> 1"
  by (induction xs) (auto simp: filter_empty_conv image_iff)

lemma length_filter_mono:
  "(\<And>x. P x \<Longrightarrow> Q x) \<Longrightarrow> length (filter P xs) \<le> length (filter Q xs)"
  by (induction xs) auto

lemma bookingCount_update:
  assumes "distinct (map booking_id (bookings s))"
  shows "bookingCount (s\<lparr>bookings := map (setRoom s bookingId roomId) (bookings s)\<rparr>) x
           \<le> bookingCount s x + (if x = roomId then 1 else 0)"
proof (cases "x = roomId")
  case True
  have "length (filter (\<lambda>b. booking_roomId (setRoom s bookingId roomId b) = roomId) (bookings s))
      \<le> length (filter (\<lambda>b. booking_id b = bookingId \<or> booking_roomId b = roomId) (bookings s))"
    by (rule length_filter_mono) (simp add: setRoom_roomId split: if_splits)
  also have "\<dots> \<le> length (filter (\<lambda>b. booking_id b = bookingId) (bookings s))
                  + length (filter (\<lambda>b. booking_roomId b = roomId) (bookings s))"
    by (rule length_filter_disj)
  also have "\<dots> \<le> 1 + length (filter (\<lambda>b. booking_roomId b = roomId) (bookings s))"
    using length_filter_key [OF assms, of bookingId] by simp
  finally show ?thesis using True
    by (simp add: bookingCount_def filter_map o_def)
next
  case False
  have "length (filter (\<lambda>b. booking_roomId (setRoom s bookingId roomId b) = x) (bookings s))
      \<le> length (filter (\<lambda>b. booking_roomId b = x) (bookings s))"
    by (rule length_filter_mono) (use False in \<open>simp add: setRoom_roomId split: if_splits\<close>)
  then show ?thesis using False
    by (simp add: bookingCount_def filter_map o_def)
qed

lemma update_preserves:
  assumes wf: "wellFormed s" and cap: "capacityRespected s" and one: "oneBookingPerUser s"
    and room: "findRoom s roomId = Some r"
    and free: "bookingCount s roomId + 1 \<le> room_capacity r"
    and s': "s' = s\<lparr>bookings := map (setRoom s bookingId roomId) (bookings s)\<rparr>"
  shows "wellFormed s' \<and> capacityRespected s' \<and> oneBookingPerUser s'"
proof -
  from wf have ru: "roomIdsUnique s" and bu: "bookingIdsUnique s"
    and br: "bookingsReferenceRooms s"
    by (simp_all add: wellFormed_def)
  have 1: "roomIdsUnique s'" using ru by (simp add: roomIdsUnique_def s')
  have 2: "bookingIdsUnique s'"
    using bu by (simp add: bookingIdsUnique_def s' list_all_iff o_def)
  have 3: "bookingsReferenceRooms s'"
    using br room by (simp add: bookingsReferenceRooms_def s' list_all_iff setRoom_roomId)
  have 4: "capacityRespected s'"
    unfolding capacityRespected_def list_all_iff
  proof
    fix x assume x: "x \<in> set (rooms s')"
    then have xs: "x \<in> set (rooms s)" by (simp add: s')
    with cap have old: "bookingCount s (room_id x) \<le> room_capacity x"
      by (simp add: capacityRespected_def list_all_iff)
    from bu have d: "distinct (map booking_id (bookings s))"
      by (simp add: bookingIdsUnique_def)
    note new = bookingCount_update [OF d, of bookingId roomId "room_id x"]
    show "bookingCount s' (room_id x) \<le> room_capacity x"
    proof (cases "room_id x = roomId")
      case True
      with findRoom_unique [OF ru xs] room have "x = r" by simp
      with free True new show ?thesis by (simp add: s')
    next
      case False
      with old new show ?thesis by (simp add: s')
    qed
  qed
  have 5: "oneBookingPerUser s'"
    using one by (simp add: oneBookingPerUser_def s' o_def)
  from 1 2 3 4 5 show ?thesis by (simp add: wellFormed_def)
qed

lemma putBooking_db_success:
  assumes "putBooking (dbDeps tk) s userId roomId bookingId = (Inr b, s')"
  shows "s' = s\<lparr>bookings := map (setRoom s bookingId roomId) (bookings s)\<rparr>
       \<and> (\<exists>bs. validateBookingByRoomId (dbDeps tk) s roomId = Inr bs)"
proof -
  have sel: "updateBooking (dbDeps tk) = updateBooking_db" by (simp add: dbDeps_def)
  from assms show ?thesis
    by (auto simp: putBooking_def sel updateBooking_db_def
          split: sum.splits option.splits if_splits)
qed

lemma putBooking_preserves:
  assumes wf: "wellFormed s" and cap: "capacityRespected s" and one: "oneBookingPerUser s"
  shows "wellFormed (snd (putBooking (dbDeps tk) s userId roomId bookingId))
       \<and> capacityRespected (snd (putBooking (dbDeps tk) s userId roomId bookingId))
       \<and> oneBookingPerUser (snd (putBooking (dbDeps tk) s userId roomId bookingId))"
proof (cases "putBooking (dbDeps tk) s userId roomId bookingId")
  case (Pair x s')
  show ?thesis
  proof (cases x)
    case (Inl e)
    with Pair putBooking_error_store [OF failedWritesWriteNothing_dbDeps] have "s' = s"
      by blast
    with Pair assms show ?thesis by simp
  next
    case (Inr b)
    from wf have br: "bookingsReferenceRooms s" by (simp add: wellFormed_def)
    from Pair Inr have ok: "putBooking (dbDeps tk) s userId roomId bookingId = (Inr b, s')"
      by simp
    from putBooking_db_success [OF ok] obtain bs where
      s': "s' = s\<lparr>bookings := map (setRoom s bookingId roomId) (bookings s)\<rparr>" and
      v: "validateBookingByRoomId (dbDeps tk) s roomId = Inr bs"
      by blast
    from validateBookingByRoomId_db_Inr [OF v] br obtain r where
      "findRoom s roomId = Some r" "bookingCount s roomId + 1 \<le> room_capacity r"
      by blast
    from update_preserves [OF wf cap one this s']
    show ?thesis using Pair by simp
  qed
qed

text \<open>
  C8. In a store that satisfies the schema's keys and references, if no room has more
  bookings than its capacity and no user has two bookings, then the same holds in the
  store left by \<open>postBooking\<close> and in the store left by \<open>putBooking\<close>, whether the call
  succeeded or threw; the schema's guarantees are kept as well.
\<close>

theorem invariants_preserved:
  assumes "wellFormed s" and "capacityRespected s" and "oneBookingPerUser s"
  shows "capacityRespected (snd (postBooking (dbDeps tk) s userId roomId))
       \<and> oneBookingPerUser (snd (postBooking (dbDeps tk) s userId roomId))
       \<and> wellFormed (snd (postBooking (dbDeps tk) s userId roomId))
       \<and> capacityRespected (snd (putBooking (dbDeps tk) s userId roomId bookingId))
       \<and> oneBookingPerUser (snd (putBooking (dbDeps tk) s userId roomId bookingId))
       \<and> wellFormed (snd (putBooking (dbDeps tk) s userId roomId bookingId))"
  using postBooking_preserves [OF assms] putBooking_preserves [OF assms] by blast

text \<open>
  What a successful put leaves in the store: the booking \<open>bookingId\<close>, now referencing
  \<open>roomId\<close>, which is also the booking returned.
\<close>

lemma find_map_key:
  "(\<And>x. P (f x) = P x) \<Longrightarrow> find P (map f xs) = map_option f (find P xs)"
  by (induction xs) auto

lemma putBooking_db_moves_booking:
  assumes "putBooking (dbDeps tk) s userId roomId bookingId = (Inr b, s')"
  shows "booking_id b = bookingId \<and> booking_roomId b = roomId
       \<and> findBookingByBookingId_db s' bookingId = Some b"
proof -
  have sel: "updateBooking (dbDeps tk) = updateBooking_db" by (simp add: dbDeps_def)
  from assms have u: "updateBooking_db s bookingId roomId = (Inr b, s')"
    by (auto simp: putBooking_def sel split: sum.splits if_splits)
  then obtain b0 where b0: "findBookingByBookingId_db s bookingId = Some b0"
    and b: "b = setRoom s bookingId roomId b0"
    and s': "s' = s\<lparr>bookings := map (setRoom s bookingId roomId) (bookings s)\<rparr>"
    by (auto simp: updateBooking_db_def split: option.splits)
  from b0 have i: "booking_id b0 = bookingId"
    by (auto simp: findBookingByBookingId_db_def find_Some_iff)
  have "findBookingByBookingId_db s' bookingId
      = map_option (setRoom s bookingId roomId) (findBookingByBookingId_db s bookingId)"
    by (simp add: findBookingByBookingId_db_def s' find_map_key)
  with b0 b i show ?thesis by (simp add: setRoom_roomId)
qed

section \<open>Worked examples\<close>

lemmas example_defs =
  room1_def room2_def booking1_def booking2_def posted_def store1_def store2_def
  store1_posted_def store2_moved_def store2_other_def ticketOf_def answering_def
  paidHotelTicket_def reservedTicket_def insertNothing_def emptyHandedDeps_def
  room3_def store3_def insertSilently_def leakyDeps_def

lemmas db_defs =
  dbDeps_def findRoom_def includeRoom_def findBookingByUserId_db_def
  findBookingByRoomId_db_def findBookingByBookingId_db_def insertBooking_db_def
  updateBooking_db_def setRoom_def

lemmas service_defs =
  postBooking_def putBooking_def getBookingByUserId_def validateTicket_def
  validateBookingByRoomId_def validateBookingByUserId_def checkUserHasBooking_def
  checkRoomExists_def checkBookingExists_def listRoom_def int4_def Let_def

lemmas store_defs =
  wellFormed_def roomIdsUnique_def bookingIdsUnique_def bookingsReferenceRooms_def
  capacityRespected_def oneBookingPerUser_def bookingCount_def

text \<open>The service on the example stores, computed from its definition.\<close>

lemma ex_post_reserved:
  "postBooking (dbDeps reservedTicket) store2 9 2 = (Inl unauthorizedError, store2)"
  by (simp add: service_defs db_defs example_defs)

lemma ex_post_full:
  "postBooking (dbDeps paidHotelTicket) store2 9 2 = (Inl forbiddenError, store2)"
  by (simp add: service_defs db_defs example_defs)

lemma ex_post_no_room:
  "postBooking (dbDeps paidHotelTicket) store2 9 5 = (Inl notFoundError, store2)"
  by (simp add: service_defs db_defs example_defs)

lemma ex_post_ok:
  "postBooking (dbDeps paidHotelTicket) store1 7 1 = (Inr 2, store1_posted)"
  by (simp add: service_defs db_defs example_defs)

lemma ex_put_no_booking:
  "putBooking (dbDeps paidHotelTicket) store2 9 1 2 = (Inl forbiddenError, store2)"
  by (simp add: service_defs db_defs example_defs)

lemma ex_put_no_room:
  "putBooking (dbDeps paidHotelTicket) store2 7 5 2 = (Inl notFoundError, store2)"
  by (simp add: service_defs db_defs example_defs)

lemma ex_put_full:
  "putBooking (dbDeps paidHotelTicket) store2 7 2 2 = (Inl forbiddenError, store2)"
  by (simp add: service_defs db_defs example_defs)

lemma ex_put_ok:
  "putBooking (dbDeps paidHotelTicket) store2 7 1 2
     = (Inr (booking2\<lparr>booking_roomId := 1, booking_updatedAt := 10\<rparr>), store2_moved)"
  by (simp add: service_defs db_defs example_defs)

lemma ex_wellFormed: "wellFormed store1" "wellFormed store2"
  by (simp_all add: store_defs db_defs example_defs)

lemma ex_invariants:
  "capacityRespected store1" "oneBookingPerUser store1"
  "capacityRespected store2" "oneBookingPerUser store2"
  by (simp_all add: store_defs db_defs example_defs)

text \<open>Witness of C1: each guard in turn, and the insert that returns nothing.\<close>

theorem postBooking_guard_order_witness:
  "postBooking (dbDeps reservedTicket) store2 9 2 = (Inl unauthorizedError, store2)
 \<and> postBooking (dbDeps paidHotelTicket) store2 9 2 = (Inl forbiddenError, store2)
 \<and> postBooking (dbDeps paidHotelTicket) store2 7 5 = (Inl notFoundError, store2)
 \<and> postBooking (dbDeps paidHotelTicket) store2 7 1 = (Inl forbiddenError, store2)
 \<and> postBooking emptyHandedDeps store1 7 1 = (Inl forbiddenError, store1)
 \<and> postBooking (dbDeps paidHotelTicket) store1 7 1 = (Inr 2, store1_posted)"
proof -
  have 1: "postBooking (dbDeps reservedTicket) store2 9 2 = (Inl unauthorizedError, store2)"
    by (subst postBooking_guard_order) (simp add: db_defs example_defs)
  have 2: "postBooking (dbDeps paidHotelTicket) store2 9 2 = (Inl forbiddenError, store2)"
    by (subst postBooking_guard_order) (simp add: db_defs example_defs)
  have 3: "postBooking (dbDeps paidHotelTicket) store2 7 5 = (Inl notFoundError, store2)"
    by (subst postBooking_guard_order) (simp add: db_defs example_defs)
  have 4: "postBooking (dbDeps paidHotelTicket) store2 7 1 = (Inl forbiddenError, store2)"
    by (subst postBooking_guard_order) (simp add: db_defs example_defs)
  have 5: "postBooking emptyHandedDeps store1 7 1 = (Inl forbiddenError, store1)"
    by (subst postBooking_guard_order) (simp add: db_defs example_defs)
  have 6: "postBooking (dbDeps paidHotelTicket) store1 7 1 = (Inr 2, store1_posted)"
    by (subst postBooking_guard_order) (simp add: db_defs example_defs Let_def)
  from 1 2 3 4 5 6 show ?thesis by (intro conjI)
qed

text \<open>
  Witness of C2: each check in turn, a \<open>roomId\<close> outside the 32-bit range with and
  without a booking \<open>bookingId\<close>, and the update.
\<close>

theorem putBooking_check_order_witness:
  "putBooking (dbDeps paidHotelTicket) store2 9 1 2 = (Inl forbiddenError, store2)
 \<and> putBooking (dbDeps paidHotelTicket) store2 7 2147483648 2 = (Inl databaseError, store2)
 \<and> putBooking (dbDeps paidHotelTicket) store2 7 2147483648 4 = (Inl databaseError, store2)
 \<and> putBooking (dbDeps paidHotelTicket) store2 7 5 2 = (Inl notFoundError, store2)
 \<and> putBooking (dbDeps paidHotelTicket) store2 7 1 4 = (Inl notFoundError, store2)
 \<and> putBooking (dbDeps paidHotelTicket) store2 7 1 1 = (Inl forbiddenError, store2)
 \<and> putBooking (dbDeps paidHotelTicket) store2 7 2 2 = (Inl forbiddenError, store2)
 \<and> putBooking (dbDeps paidHotelTicket) store2 7 1 2
      = (Inr (booking2\<lparr>booking_roomId := 1, booking_updatedAt := 10\<rparr>), store2_moved)"
proof -
  have 1: "putBooking (dbDeps paidHotelTicket) store2 9 1 2 = (Inl forbiddenError, store2)"
    by (subst putBooking_check_order) (simp add: db_defs example_defs int4_def)
  have 2: "putBooking (dbDeps paidHotelTicket) store2 7 2147483648 2
      = (Inl databaseError, store2)"
    by (subst putBooking_check_order) (simp add: db_defs example_defs int4_def)
  have 3: "putBooking (dbDeps paidHotelTicket) store2 7 2147483648 4
      = (Inl databaseError, store2)"
    by (subst putBooking_check_order) (simp add: db_defs example_defs int4_def)
  have 4: "putBooking (dbDeps paidHotelTicket) store2 7 5 2 = (Inl notFoundError, store2)"
    by (subst putBooking_check_order) (simp add: db_defs example_defs int4_def)
  have 5: "putBooking (dbDeps paidHotelTicket) store2 7 1 4 = (Inl notFoundError, store2)"
    by (subst putBooking_check_order) (simp add: db_defs example_defs int4_def)
  have 6: "putBooking (dbDeps paidHotelTicket) store2 7 1 1 = (Inl forbiddenError, store2)"
    by (subst putBooking_check_order) (simp add: db_defs example_defs int4_def)
  have 7: "putBooking (dbDeps paidHotelTicket) store2 7 2 2 = (Inl forbiddenError, store2)"
    by (subst putBooking_check_order) (simp add: db_defs example_defs int4_def)
  have 8: "putBooking (dbDeps paidHotelTicket) store2 7 1 2
      = (Inr (booking2\<lparr>booking_roomId := 1, booking_updatedAt := 10\<rparr>), store2_moved)"
    by (subst putBooking_check_order) (simp add: db_defs example_defs int4_def)
  from 1 2 3 4 5 6 7 8 show ?thesis by (intro conjI)
qed

text \<open>
  Against C2 as first stated: user 7 has a booking and no room has the id 2147483648,
  yet the put throws the database client's error, not NotFound.
\<close>

theorem putBooking_roomId_out_of_range:
  "findBookingByUserId (dbDeps paidHotelTicket) store2 7 \<noteq> None
 \<and> (2147483648 :: int) \<notin> room_id ` set (rooms store2)
 \<and> putBooking (dbDeps paidHotelTicket) store2 7 2147483648 2 = (Inl databaseError, store2)
 \<and> databaseError \<noteq> notFoundError"
  by (simp add: service_defs db_defs example_defs databaseError_def notFoundError_def)

text \<open>Witness of C3: an unknown room, a full room, a room with a free place.\<close>

theorem validateBookingByRoomId_outcome_witness:
  "validateBookingByRoomId (dbDeps paidHotelTicket) store2 3 = Inl notFoundError
 \<and> validateBookingByRoomId (dbDeps paidHotelTicket) store2 2 = Inl forbiddenError
 \<and> validateBookingByRoomId (dbDeps paidHotelTicket) store2 1
      = Inr (findBookingByRoomId (dbDeps paidHotelTicket) store2 1)
 \<and> length (findBookingByRoomId (dbDeps paidHotelTicket) store2 1) = 1"
  using validateBookingByRoomId_outcome [of "dbDeps paidHotelTicket" store2 3]
    validateBookingByRoomId_outcome [of "dbDeps paidHotelTicket" store2 2]
    validateBookingByRoomId_outcome [of "dbDeps paidHotelTicket" store2 1]
  by (simp add: Let_def db_defs example_defs)

text \<open>Witness of C4: an eligible ticket, and the three ways to be ineligible.\<close>

theorem validateTicket_eligibility_witness:
  "getTicketByUserId (dbDeps paidHotelTicket) store1 7 = Inr (ticketOf PAID True False)
 \<and> validateTicket (dbDeps paidHotelTicket) store1 7 = Inr (ticketOf PAID True False)
 \<and> postBooking_controller (dbDeps reservedTicket) store1 7 1 = (sendStatus 401, store1)
 \<and> postBooking (dbDeps (answering (ticketOf PAID True True))) store1 7 1
      = (Inl unauthorizedError, store1)
 \<and> postBooking (dbDeps (answering (ticketOf PAID False False))) store1 7 1
      = (Inl unauthorizedError, store1)"
proof -
  have t: "getTicketByUserId (dbDeps (answering x)) store1 7 = Inr x" for x
    by (simp add: dbDeps_def answering_def)
  show ?thesis
    using validateTicket_eligibility [OF t, of "ticketOf PAID True False" 1]
      validateTicket_eligibility [OF t, of "ticketOf RESERVED True False" 1]
      validateTicket_eligibility [OF t, of "ticketOf PAID True True" 1]
      validateTicket_eligibility [OF t, of "ticketOf PAID False False" 1]
    by (simp add: ticketOf_def paidHotelTicket_def reservedTicket_def t)
qed

text \<open>
  Witness of C5: room 2 of \<open>store1\<close> and room 3 of \<open>store3\<close> exist and have no booking.
\<close>

theorem empty_room_is_not_found_witness:
  "listRoom store1 2 = Inr (Some room2)
 \<and> findBookingByRoomId (dbDeps paidHotelTicket) store1 2 = []
 \<and> postBooking (dbDeps paidHotelTicket) store1 7 2 = (Inl notFoundError, store1)
 \<and> putBooking (dbDeps paidHotelTicket) store1 8 2 1 = (Inl notFoundError, store1)
 \<and> putBooking (dbDeps paidHotelTicket) store1 8 2 4 = (Inl notFoundError, store1)
 \<and> putBooking (dbDeps paidHotelTicket) store3 7 3 1 = (Inl forbiddenError, store3)"
proof -
  have r: "listRoom store1 2 = Inr (Some room2)"
    by (simp add: listRoom_def int4_def example_defs)
  have e: "findBookingByRoomId (dbDeps paidHotelTicket) store1 2 = []"
    by (simp add: db_defs example_defs)
  have t: "getTicketByUserId (dbDeps paidHotelTicket) store1 7 = Inr (ticketOf PAID True False)"
    by (simp add: dbDeps_def example_defs)
  have u: "findBookingByUserId (dbDeps paidHotelTicket) store1 8
      = Some \<lparr>booking_id = 1, booking_userId = 8, booking_roomId = 1,
               booking_createdAt = 5, booking_updatedAt = 5, Room = room1\<rparr>"
    by (simp add: db_defs example_defs)
  have k1: "findBookingByBookingId (dbDeps paidHotelTicket) store1 1 = Some booking1"
    by (simp add: db_defs example_defs)
  have k4: "findBookingByBookingId (dbDeps paidHotelTicket) store1 4 = None"
    by (simp add: db_defs example_defs)
  have r3: "listRoom store3 3 = Inr (Some room3)"
    by (simp add: listRoom_def int4_def example_defs)
  have e3: "findBookingByRoomId (dbDeps paidHotelTicket) store3 3 = []"
    by (simp add: db_defs example_defs)
  have u3: "findBookingByUserId (dbDeps paidHotelTicket) store3 7
      = Some \<lparr>booking_id = 2, booking_userId = 7, booking_roomId = 2,
               booking_createdAt = 6, booking_updatedAt = 6, Room = room2\<rparr>"
    by (simp add: db_defs example_defs)
  have k3: "findBookingByBookingId (dbDeps paidHotelTicket) store3 1 = Some booking1"
    by (simp add: db_defs example_defs)
  have i: "booking_id booking1 = 1"
    by (simp add: booking1_def)
  from empty_room_is_not_found [OF e, of 7 1, THEN conjunct1] t
  have p: "postBooking (dbDeps paidHotelTicket) store1 7 2 = (Inl notFoundError, store1)"
    by (simp add: ticketOf_def)
  from empty_room_is_not_found
    [OF e, of 8 1, THEN conjunct2, THEN conjunct1, rule_format, OF conjI [OF u r]]
  have q1: "putBooking (dbDeps paidHotelTicket) store1 8 2 1 = (Inl notFoundError, store1)"
    by (simp add: k1 i)
  from empty_room_is_not_found
    [OF e, of 8 4, THEN conjunct2, THEN conjunct1, rule_format, OF conjI [OF u r]]
  have q4: "putBooking (dbDeps paidHotelTicket) store1 8 2 4 = (Inl notFoundError, store1)"
    by (simp add: k4)
  from empty_room_is_not_found
    [OF e3, of 7 1, THEN conjunct2, THEN conjunct1, rule_format, OF conjI [OF u3 r3]]
  have q3: "putBooking (dbDeps paidHotelTicket) store3 7 3 1 = (Inl forbiddenError, store3)"
    by (simp add: k3 i)
  from r e p q1 q4 q3 show ?thesis by (intro conjI)
qed

text \<open>
  Against C5 as first stated: room 3 exists and no booking references it, the caller's
  booking is in room 2, and the put throws Forbidden, not NotFound, because \<open>bookingId\<close>
  names the booking of user 8.
\<close>

theorem putBooking_empty_room_forbidden:
  "listRoom store3 3 = Inr (Some room3)
 \<and> findBookingByRoomId (dbDeps paidHotelTicket) store3 3 = []
 \<and> findBookingByUserId (dbDeps paidHotelTicket) store3 7
      = Some \<lparr>booking_id = 2, booking_userId = 7, booking_roomId = 2,
               booking_createdAt = 6, booking_updatedAt = 6, Room = room2\<rparr>
 \<and> putBooking (dbDeps paidHotelTicket) store3 7 3 1 = (Inl forbiddenError, store3)
 \<and> forbiddenError \<noteq> notFoundError"
  by (simp add: service_defs db_defs example_defs error_defs)

text \<open>Witness of C6: the successful post of the tests, then the get.\<close>

theorem post_then_get_witness:
  "bookingsReferenceRooms store1
 \<and> postBooking (dbDeps paidHotelTicket) store1 7 1 = (Inr 2, store1_posted)
 \<and> getBookingByUserId (dbDeps paidHotelTicket) store1_posted 7
      = Inr \<lparr>response_id = 2, response_Room = room1\<rparr>"
proof -
  have h: "bookingsReferenceRooms store1"
    by (simp add: store_defs db_defs example_defs)
  have r: "findRoom store1_posted 1 = Some room1"
    by (simp add: db_defs example_defs)
  from post_then_get [OF h ex_post_ok] r
  have "getBookingByUserId (dbDeps paidHotelTicket) store1_posted 7
      = Inr \<lparr>response_id = 2, response_Room = room1\<rparr>"
    by auto
  with h ex_post_ok show ?thesis by (intro conjI)
qed

text \<open>Witness of C7: one request for each status code.\<close>

theorem controller_error_mapping_witness:
  "statusCode (fst (postBooking_controller (dbDeps reservedTicket) store2 9 2)) = 401
 \<and> statusCode (fst (postBooking_controller (dbDeps paidHotelTicket) store2 9 2)) = 403
 \<and> fst (postBooking_controller (dbDeps paidHotelTicket) store2 9 5) = sendStatus 404
 \<and> fst (postBooking_controller (dbDeps paidHotelTicket) store1 7 1)
      = \<lparr>statusCode = 200, body = Some (BookingIdPayload 2)\<rparr>
 \<and> getBooking (dbDeps paidHotelTicket) store2 9 = sendStatus 404
 \<and> statusCode (fst (putBooking_controller (dbDeps paidHotelTicket) store2 9 1 2)) = 403
 \<and> fst (putBooking_controller (dbDeps paidHotelTicket) store2 7 5 2) = sendStatus 404"
proof -
  have g: "getBookingByUserId (dbDeps paidHotelTicket) store2 9 = Inl notFoundError"
    by (simp add: service_defs db_defs example_defs)
  from controller_error_mapping [of "dbDeps reservedTicket" store2 9 2 2]
  have 1: "statusCode (fst (postBooking_controller (dbDeps reservedTicket) store2 9 2)) = 401"
    by (simp add: ex_post_reserved error_defs)
  from controller_error_mapping [of "dbDeps paidHotelTicket" store2 9 2 2]
  have 2: "statusCode (fst (postBooking_controller (dbDeps paidHotelTicket) store2 9 2)) = 403"
    and 5: "getBooking (dbDeps paidHotelTicket) store2 9 = sendStatus 404"
    by (simp_all add: ex_post_full g error_defs)
  from controller_error_mapping [of "dbDeps paidHotelTicket" store2 9 5 2]
  have 3: "fst (postBooking_controller (dbDeps paidHotelTicket) store2 9 5) = sendStatus 404"
    by (simp add: ex_post_no_room error_defs)
  from controller_error_mapping [of "dbDeps paidHotelTicket" store1 7 1 2]
  have 4: "fst (postBooking_controller (dbDeps paidHotelTicket) store1 7 1)
      = \<lparr>statusCode = 200, body = Some (BookingIdPayload 2)\<rparr>"
    by (simp add: ex_post_ok)
  from controller_error_mapping [of "dbDeps paidHotelTicket" store2 9 1 2]
  have 7: "statusCode (fst (putBooking_controller (dbDeps paidHotelTicket) store2 9 1 2)) = 403"
    by (simp add: ex_put_no_booking error_defs)
  from controller_error_mapping [of "dbDeps paidHotelTicket" store2 7 5 2]
  have 8: "fst (putBooking_controller (dbDeps paidHotelTicket) store2 7 5 2) = sendStatus 404"
    by (simp add: ex_put_no_room error_defs)
  from 1 2 3 4 5 7 8 show ?thesis by (intro conjI)
qed

text \<open>Witness of C8: the successful post and the successful put of the examples.\<close>

theorem invariants_preserved_witness:
  "wellFormed store1 \<and> capacityRespected store1 \<and> oneBookingPerUser store1
 \<and> capacityRespected store1_posted \<and> oneBookingPerUser store1_posted
 \<and> wellFormed store2 \<and> capacityRespected store2 \<and> oneBookingPerUser store2
 \<and> capacityRespected store2_moved \<and> oneBookingPerUser store2_moved"
proof -
  from invariants_preserved [OF ex_wellFormed(1) ex_invariants(1,2), of paidHotelTicket 7 1]
  have a: "capacityRespected store1_posted \<and> oneBookingPerUser store1_posted"
    by (simp add: ex_post_ok)
  from invariants_preserved [OF ex_wellFormed(2) ex_invariants(3,4), of paidHotelTicket 7 1 2]
  have b: "capacityRespected store2_moved \<and> oneBookingPerUser store2_moved"
    by (simp add: ex_put_ok)
  from a b ex_wellFormed ex_invariants show ?thesis by (intro conjI) simp_all
qed

text \<open>
  Witness of C9: a user without a booking, a user with one, and the same booking held by
  another user since another time.
\<close>

theorem getBookingByUserId_outcome_witness:
  "findBookingByUserId (dbDeps paidHotelTicket) store2 9 = None
 \<and> getBookingByUserId (dbDeps paidHotelTicket) store2 9 = Inl notFoundError
 \<and> getBookingByUserId (dbDeps paidHotelTicket) store2 7
      = Inr \<lparr>response_id = 2, response_Room = room2\<rparr>
 \<and> getBookingByUserId (dbDeps paidHotelTicket) store2_other 11
      = getBookingByUserId (dbDeps paidHotelTicket) store2 7"
proof -
  note th9 = getBookingByUserId_outcome [of "dbDeps paidHotelTicket" store2 9]
  note th7 = getBookingByUserId_outcome [of "dbDeps paidHotelTicket" store2 7]
  have n: "findBookingByUserId (dbDeps paidHotelTicket) store2 9 = None"
    by (simp add: db_defs example_defs)
  have f: "findBookingByUserId (dbDeps paidHotelTicket) store2 7
      = Some \<lparr>booking_id = 2, booking_userId = 7, booking_roomId = 2,
               booking_createdAt = 6, booking_updatedAt = 6, Room = room2\<rparr>"
    by (simp add: db_defs example_defs)
  have f': "findBookingByUserId (dbDeps paidHotelTicket) store2_other 11
      = Some \<lparr>booking_id = 2, booking_userId = 11, booking_roomId = 2,
               booking_createdAt = 7, booking_updatedAt = 6, Room = room2\<rparr>"
    by (simp add: db_defs example_defs)
  from th9 n
  have a: "getBookingByUserId (dbDeps paidHotelTicket) store2 9 = Inl notFoundError"
    by blast
  from th7 f
  have b: "getBookingByUserId (dbDeps paidHotelTicket) store2 7
      = Inr \<lparr>response_id = 2, response_Room = room2\<rparr>"
    by simp
  note same = th7 [THEN conjunct2, THEN conjunct2, rule_format,
    of _ "dbDeps paidHotelTicket" store2_other 11, OF conjI [OF f conjI [OF f' conjI]]]
  have c: "getBookingByUserId (dbDeps paidHotelTicket) store2_other 11
      = getBookingByUserId (dbDeps paidHotelTicket) store2 7"
    by (rule same) simp_all
  from n a b c show ?thesis by (intro conjI)
qed



end
